theory Spec2Isabelle
  imports Complex_Main "HOL-Library.Word" "HOL-Library.Signed_Division"
begin

section \<open>Go values\<close>

text \<open>
  Go's \<open>int\<close> and \<open>int64\<close> are modelled as 64-bit words (the width of \<open>int\<close> on the
  64-bit platforms the service is built for): \<open>+\<close>, \<open>-\<close> and \<open>*\<close> wrap around, comparisons
  are the signed ones (\<open><s\<close>, \<open>\<le>s\<close>), and \<open>sint\<close> reads the value. Identifiers (\<open>uint\<close>) and
  timestamps are natural numbers: no claim depends on their width.
\<close>

type_synonym go_int = "64 word"

type_synonym time = nat

text \<open>
  Go's \<open>/\<close> and \<open>%\<close> on signed integers truncate towards zero; the quotient wraps in the single
  overflowing case. Division by zero panics: the callers check for it before they divide.
\<close>

definition int_quo :: "go_int \<Rightarrow> go_int \<Rightarrow> go_int" where
  "int_quo a b = word_of_int (sint a sdiv sint b)"

definition int_rem :: "go_int \<Rightarrow> go_int \<Rightarrow> go_int" where
  "int_rem a b = word_of_int (sint a smod sint b)"

subsection \<open>strconv\<close>

text \<open>
  \<open>strconv.Atoi\<close> and \<open>strconv.ParseUint\<close> of the standard library, base 10. A string of
  decimal digits is read left to right; anything else is a syntax error.
\<close>

definition is_digit :: "char \<Rightarrow> bool" where
  "is_digit c = (48 \<le> (of_char c :: nat) \<and> (of_char c :: nat) \<le> 57)"

fun digits_val :: "string \<Rightarrow> nat \<Rightarrow> nat option" where
  "digits_val [] acc = Some acc"
| "digits_val (c # cs) acc =
     (if is_digit c then digits_val cs (acc * 10 + (of_char c - 48)) else None)"

text \<open>
  \<open>Atoi\<close> returns a value and an error; the value is 0 after a syntax error and the nearest
  bound of \<open>int\<close> after a range error. The list handler discards the error
  (\<open>page, _ := strconv.Atoi(...)\<close>), so the model returns the value only.
\<close>

definition Atoi :: "string \<Rightarrow> go_int" where
  "Atoi s =
     (let neg = (s \<noteq> [] \<and> hd s = CHR ''-'');
          ds = (if s \<noteq> [] \<and> (hd s = CHR ''-'' \<or> hd s = CHR ''+'') then tl s else s)
      in if ds = [] then 0
         else (case digits_val ds 0 of
                 None \<Rightarrow> 0
               | Some n \<Rightarrow>
                   if neg then (if 2 ^ 63 < n then - (2 ^ 63) else - word_of_int (int n))
                   else (if 2 ^ 63 \<le> n then 2 ^ 63 - 1 else word_of_int (int n))))"

text \<open>
  \<open>strconv.ParseUint(s, 10, 32)\<close>: no sign is accepted, and a value that does not fit 32
  bits is a range error. The handlers treat every error alike, so the model returns \<open>None\<close>.
\<close>

definition ParseUint32 :: "string \<Rightarrow> nat option" where
  "ParseUint32 s =
     (if s = [] then None
      else (case digits_val s 0 of
              None \<Rightarrow> None
            | Some n \<Rightarrow> if n < 2 ^ 32 then Some n else None))"

subsection \<open>Errors\<close>

text \<open>
  The \<open>error\<close> values the layers exchange: gorm's sentinel \<open>ErrRecordNotFound\<close>, the errors
  the use cases build with \<open>errors.New\<close>, and every other error of a collaborator (the
  database, the hasher, the token signer). \<open>err_Error\<close> is the method \<open>Error()\<close>.
\<close>

datatype error = ErrRecordNotFound | New string | Other string

fun err_Error :: "error \<Rightarrow> string" where
  "err_Error ErrRecordNotFound = ''record not found''"
| "err_Error (New m) = m"
| "err_Error (Other m) = m"

section \<open>Entity and transfer objects\<close>

text \<open>\<open>entity.User\<close>; \<open>DeletedAt\<close> is the soft-delete marker.\<close>

record User =
  ID :: nat
  Name :: string
  Email :: string
  Password :: string
  Role :: string
  IsActive :: bool
  CreatedAt :: time
  UpdatedAt :: time
  DeletedAt :: "time option"

text \<open>The request bodies of \<open>internal/dto/user_dto.go\<close>.\<close>

record RegisterRequest =
  reg_name :: string
  reg_email :: string
  reg_password :: string

record LoginRequest =
  login_email :: string
  login_password :: string

record UpdateUserRequest =
  upd_name :: string
  upd_email :: string
  upd_password :: string

text \<open>\<open>dto.UserResponse\<close>, its fields named by their JSON keys.\<close>

record UserResponse =
  resp_id :: nat
  resp_name :: string
  resp_email :: string
  resp_role :: string
  resp_is_active :: bool
  resp_created_at :: time
  resp_updated_at :: time

record LoginResponse =
  resp_token :: string
  resp_user :: UserResponse

text \<open>
  Every use case builds its \<open>dto.UserResponse\<close> with the same struct literal over the
  entity; the literal is written once here.
\<close>

definition UserResponse_of :: "User \<Rightarrow> UserResponse" where
  "UserResponse_of user =
     \<lparr>resp_id = ID user, resp_name = Name user, resp_email = Email user,
      resp_role = Role user, resp_is_active = IsActive user,
      resp_created_at = CreatedAt user, resp_updated_at = UpdatedAt user\<rparr>"

subsection \<open>Pagination request (\<open>internal/dto/pagination.go\<close>)\<close>

record PaginationRequest =
  Page :: go_int
  Limit :: go_int

definition Normalize :: "PaginationRequest \<Rightarrow> PaginationRequest" where
  "Normalize p =
     (let p = (if Page p <s 1 then p\<lparr>Page := 1\<rparr> else p);
          p = (if Limit p <s 1 then p\<lparr>Limit := 10\<rparr> else p);
          p = (if 100 <s Limit p then p\<lparr>Limit := 100\<rparr> else p)
      in p)"

section \<open>Response envelope (\<open>pkg/response\<close>)\<close>

record Meta =
  CurrentPage :: go_int
  PerPage :: go_int
  Total :: go_int
  TotalPages :: go_int

datatype data = UserData UserResponse | LoginData LoginResponse | UserList "UserResponse list"

record Response =
  Success :: bool
  Message :: string
  Data :: "data option"
  Error :: "(string \<times> string) list option"
  Meta :: "Meta option"

text \<open>What \<open>c.JSON(status, body)\<close> writes: the status code and the envelope.\<close>

type_synonym http_response = "nat \<times> Response"

definition StatusOK :: nat where "StatusOK = 200"
definition StatusCreated :: nat where "StatusCreated = 201"
definition StatusBadRequest :: nat where "StatusBadRequest = 400"
definition StatusUnauthorized :: nat where "StatusUnauthorized = 401"
definition StatusForbidden :: nat where "StatusForbidden = 403"
definition StatusNotFound :: nat where "StatusNotFound = 404"
definition StatusUnprocessableEntity :: nat where "StatusUnprocessableEntity = 422"
definition StatusInternalServerError :: nat where "StatusInternalServerError = 500"

definition response_Success :: "string \<Rightarrow> data option \<Rightarrow> http_response" where
  "response_Success message d =
     (StatusOK, \<lparr>Success = True, Message = message, Data = d, Error = None, Meta = None\<rparr>)"

definition response_SuccessWithMeta :: "string \<Rightarrow> data option \<Rightarrow> Meta \<Rightarrow> http_response" where
  "response_SuccessWithMeta message d meta =
     (StatusOK, \<lparr>Success = True, Message = message, Data = d, Error = None, Meta = Some meta\<rparr>)"

definition response_Created :: "string \<Rightarrow> data option \<Rightarrow> http_response" where
  "response_Created message d =
     (StatusCreated, \<lparr>Success = True, Message = message, Data = d, Error = None, Meta = None\<rparr>)"

definition response_Error ::
  "nat \<Rightarrow> string \<Rightarrow> (string \<times> string) list option \<Rightarrow> http_response" where
  "response_Error statusCode message err =
     (statusCode, \<lparr>Success = False, Message = message, Data = None, Error = err, Meta = None\<rparr>)"

definition response_BadRequest :: "string \<Rightarrow> (string \<times> string) list option \<Rightarrow> http_response" where
  "response_BadRequest message err = response_Error StatusBadRequest message err"

definition response_Unauthorized :: "string \<Rightarrow> http_response" where
  "response_Unauthorized message = response_Error StatusUnauthorized message None"

definition response_Forbidden :: "string \<Rightarrow> http_response" where
  "response_Forbidden message = response_Error StatusForbidden message None"

definition response_NotFound :: "string \<Rightarrow> http_response" where
  "response_NotFound message = response_Error StatusNotFound message None"

definition response_InternalServerError :: "string \<Rightarrow> http_response" where
  "response_InternalServerError message = response_Error StatusInternalServerError message None"

definition response_ValidationError :: "(string \<times> string) list \<Rightarrow> http_response" where
  "response_ValidationError errors =
     (StatusUnprocessableEntity,
      \<lparr>Success = False, Message = ''Validation failed'', Data = None, Error = Some errors,
       Meta = None\<rparr>)"

text \<open>
  \<open>BuildMeta\<close> divides by \<open>perPage\<close>: Go panics on a zero divisor, which is the \<open>Inl\<close> branch.
  \<open>int(total)\<close> is the identity on a 64-bit platform (\<open>tot\<close> stands for \<open>total\<close>).
\<close>

datatype panic = DivideByZero

definition BuildMeta :: "go_int \<Rightarrow> go_int \<Rightarrow> go_int \<Rightarrow> panic + Meta" where
  "BuildMeta page perPage tot =
     (if perPage = 0 then Inl DivideByZero
      else (let totalPages = int_quo tot perPage;
                totalPages = (if 0 <s int_rem tot perPage then totalPages + 1 else totalPages)
            in Inr \<lparr>CurrentPage = page, PerPage = perPage, Total = tot,
                     TotalPages = totalPages\<rparr>))"

section \<open>Repository (\<open>internal/repository\<close>)\<close>

text \<open>
  The interface \<open>UserRepository\<close>, over any store state \<open>'s\<close>. A read returns the row or an
  error, as the implementation in \<open>user_repository_impl.go\<close> does (never both, never
  neither; no row is \<open>ErrRecordNotFound\<close>); a write returns its error (if any), the entity
  as the call left it (\<open>Create\<close> and \<open>Update\<close> take a pointer, and the store fills in the
  id and the timestamps), and the new state of the store. The use cases test an error with
  \<open>errors.Is(err, gorm.ErrRecordNotFound)\<close>, here the equality with the sentinel.
\<close>

record 's UserRepository =
  repoCreate :: "'s \<Rightarrow> User \<Rightarrow> error option \<times> User \<times> 's"
  repoFindByID :: "'s \<Rightarrow> nat \<Rightarrow> error + User"
  repoFindByEmail :: "'s \<Rightarrow> string \<Rightarrow> error + User"
  repoFindAll :: "'s \<Rightarrow> go_int \<Rightarrow> go_int \<Rightarrow> error + User list \<times> go_int"
  repoUpdate :: "'s \<Rightarrow> User \<Rightarrow> error option \<times> User \<times> 's"
  repoDelete :: "'s \<Rightarrow> nat \<Rightarrow> error option \<times> 's"

text \<open>
  \<open>userRepository.FindAll\<close> of \<open>user_repository_impl.go\<close> runs two queries of the ORM on
  the database \<open>'d\<close>: the count of the rows, and the rows at an offset, up to a limit. The
  ORM is a collaborator, taken as a parameter. \<open>FindAll_offset\<close> is the local \<open>offset\<close>.
\<close>

record 'd gorm =
  gormCount :: "'d \<Rightarrow> error + go_int"
  gormOffsetLimitFind :: "'d \<Rightarrow> go_int \<Rightarrow> go_int \<Rightarrow> error + User list"

definition FindAll_offset :: "go_int \<Rightarrow> go_int \<Rightarrow> go_int" where
  "FindAll_offset page limit = (page - 1) * limit"

definition userRepository_FindAll ::
  "'d gorm \<Rightarrow> 'd \<Rightarrow> go_int \<Rightarrow> go_int \<Rightarrow> error + User list \<times> go_int" where
  "userRepository_FindAll db d page limit =
     (let offset = FindAll_offset page limit
      in case gormCount db d of
           Inl err \<Rightarrow> Inl err
         | Inr tot \<Rightarrow>
             (case gormOffsetLimitFind db d offset limit of
                Inl err \<Rightarrow> Inl err
              | Inr users \<Rightarrow> Inr (users, tot)))"

section \<open>Use cases (\<open>internal/usecase/user_usecase.go\<close>)\<close>

text \<open>
  \<open>utils.HashPassword\<close>, \<open>utils.CheckPassword\<close> and the token manager's \<open>GenerateToken\<close> are
  called by the use cases and are parameters here: \<open>HashPassword\<close> returns the digest or an
  error, \<open>CheckPassword password hash\<close> a boolean, \<open>GenerateToken id email role\<close> the token
  or an error. A use case returns its result and the state of the store it leaves.
\<close>

definition Register ::
  "'s UserRepository \<Rightarrow> (string \<Rightarrow> error + string) \<Rightarrow> 's \<Rightarrow> RegisterRequest
     \<Rightarrow> (error + UserResponse) \<times> 's" where
  "Register repo HashPassword s req =
     (case repoFindByEmail repo s (reg_email req) of
        Inr existingUser \<Rightarrow> (Inl (New ''email already registered''), s)
      | Inl err \<Rightarrow>
          if err \<noteq> ErrRecordNotFound then (Inl err, s)
          else (case HashPassword (reg_password req) of
                  Inl err \<Rightarrow> (Inl err, s)
                | Inr hashedPassword \<Rightarrow>
                    (case repoCreate repo s
                            \<lparr>ID = 0, Name = reg_name req, Email = reg_email req,
                             Password = hashedPassword, Role = ''user'', IsActive = True,
                             CreatedAt = 0, UpdatedAt = 0, DeletedAt = None\<rparr> of
                       (Some err, user, s') \<Rightarrow> (Inl err, s')
                     | (None, user, s') \<Rightarrow> (Inr (UserResponse_of user), s'))))"

definition Login ::
  "'s UserRepository \<Rightarrow> (string \<Rightarrow> string \<Rightarrow> bool) \<Rightarrow> (nat \<Rightarrow> string \<Rightarrow> string \<Rightarrow> error + string)
     \<Rightarrow> 's \<Rightarrow> LoginRequest \<Rightarrow> error + LoginResponse" where
  "Login repo CheckPassword GenerateToken s req =
     (case repoFindByEmail repo s (login_email req) of
        Inl err \<Rightarrow>
          if err = ErrRecordNotFound then Inl (New ''invalid email or password'') else Inl err
      | Inr user \<Rightarrow>
          if \<not> CheckPassword (login_password req) (Password user)
          then Inl (New ''invalid email or password'')
          else if \<not> IsActive user then Inl (New ''account is not active'')
          else (case GenerateToken (ID user) (Email user) (Role user) of
                  Inl err \<Rightarrow> Inl err
                | Inr token \<Rightarrow>
                    Inr \<lparr>resp_token = token, resp_user = UserResponse_of user\<rparr>))"

definition GetByID :: "'s UserRepository \<Rightarrow> 's \<Rightarrow> nat \<Rightarrow> error + UserResponse" where
  "GetByID repo s uid =
     (case repoFindByID repo s uid of
        Inl err \<Rightarrow> if err = ErrRecordNotFound then Inl (New ''user not found'') else Inl err
      | Inr user \<Rightarrow> Inr (UserResponse_of user))"

definition GetAll ::
  "'s UserRepository \<Rightarrow> 's \<Rightarrow> go_int \<Rightarrow> go_int \<Rightarrow> error + UserResponse list \<times> go_int" where
  "GetAll repo s page limit =
     (case repoFindAll repo s page limit of
        Inl err \<Rightarrow> Inl err
      | Inr (users, tot) \<Rightarrow> Inr (map UserResponse_of users, tot))"

text \<open>
  \<open>Update\<close> applies the three optional fields in the order of the source; each of the email
  check and the hashing can leave the function early, before the store's update is reached.
\<close>

definition Update ::
  "'s UserRepository \<Rightarrow> (string \<Rightarrow> error + string) \<Rightarrow> 's \<Rightarrow> nat \<Rightarrow> UpdateUserRequest
     \<Rightarrow> (error + UserResponse) \<times> 's" where
  "Update repo HashPassword s uid req =
     (case repoFindByID repo s uid of
        Inl err \<Rightarrow>
          if err = ErrRecordNotFound then (Inl (New ''user not found''), s) else (Inl err, s)
      | Inr user \<Rightarrow>
          (let user = (if upd_name req \<noteq> [] then user\<lparr>Name := upd_name req\<rparr> else user);
               checked =
                 (if upd_email req \<noteq> [] then
                    (case repoFindByEmail repo s (upd_email req) of
                       Inl err \<Rightarrow>
                         if err \<noteq> ErrRecordNotFound then Inl err
                         else Inr (user\<lparr>Email := upd_email req\<rparr>)
                     | Inr existingUser \<Rightarrow>
                         if ID existingUser \<noteq> uid then Inl (New ''email already taken'')
                         else Inr (user\<lparr>Email := upd_email req\<rparr>))
                  else Inr user)
           in case checked of
                Inl err \<Rightarrow> (Inl err, s)
              | Inr user \<Rightarrow>
                  (case (if upd_password req \<noteq> [] then
                           (case HashPassword (upd_password req) of
                              Inl err \<Rightarrow> Inl err
                            | Inr hashedPassword \<Rightarrow> Inr (user\<lparr>Password := hashedPassword\<rparr>))
                         else Inr user) of
                     Inl err \<Rightarrow> (Inl err, s)
                   | Inr user \<Rightarrow>
                       (case repoUpdate repo s user of
                          (Some err, user', s') \<Rightarrow> (Inl err, s')
                        | (None, user', s') \<Rightarrow> (Inr (UserResponse_of user'), s')))))"

definition Delete :: "'s UserRepository \<Rightarrow> 's \<Rightarrow> nat \<Rightarrow> error option \<times> 's" where
  "Delete repo s uid =
     (case repoFindByID repo s uid of
        Inl err \<Rightarrow> if err = ErrRecordNotFound then (Some (New ''user not found''), s) else (Some err, s)
      | Inr user \<Rightarrow> repoDelete repo s uid)"

section \<open>Handlers (\<open>internal/handler/user_handler.go\<close>)\<close>

text \<open>
  A handler first binds the JSON body (\<open>c.ShouldBindJSON\<close>): the outcome is either the
  formatted validation errors, answered with 422, or the bound request. The framework's
  binding is a collaborator; a handler takes its outcome. Path parameters and query values
  arrive as strings.
\<close>

type_synonym 'a bound = "(string \<times> string) list + 'a"

definition UserHandler_Register ::
  "'s UserRepository \<Rightarrow> (string \<Rightarrow> error + string) \<Rightarrow> 's \<Rightarrow> RegisterRequest bound
     \<Rightarrow> http_response \<times> 's" where
  "UserHandler_Register repo HashPassword s body =
     (case body of
        Inl errors \<Rightarrow> (response_ValidationError errors, s)
      | Inr req \<Rightarrow>
          (case Register repo HashPassword s req of
             (Inl err, s') \<Rightarrow> (response_BadRequest (err_Error err) None, s')
           | (Inr user, s') \<Rightarrow>
               (response_Created ''User registered successfully'' (Some (UserData user)), s')))"

definition UserHandler_Login ::
  "'s UserRepository \<Rightarrow> (string \<Rightarrow> string \<Rightarrow> bool) \<Rightarrow> (nat \<Rightarrow> string \<Rightarrow> string \<Rightarrow> error + string)
     \<Rightarrow> 's \<Rightarrow> LoginRequest bound \<Rightarrow> http_response" where
  "UserHandler_Login repo CheckPassword GenerateToken s body =
     (case body of
        Inl errors \<Rightarrow> response_ValidationError errors
      | Inr req \<Rightarrow>
          (case Login repo CheckPassword GenerateToken s req of
             Inl err \<Rightarrow> response_Unauthorized (err_Error err)
           | Inr result \<Rightarrow> response_Success ''Login successful'' (Some (LoginData result))))"

definition GetUser :: "'s UserRepository \<Rightarrow> 's \<Rightarrow> string \<Rightarrow> http_response" where
  "GetUser repo s idParam =
     (case ParseUint32 idParam of
        None \<Rightarrow> response_BadRequest ''Invalid user ID'' None
      | Some uid \<Rightarrow>
          (case GetByID repo s uid of
             Inl err \<Rightarrow> response_NotFound (err_Error err)
           | Inr user \<Rightarrow> response_Success ''User retrieved successfully'' (Some (UserData user))))"

text \<open>
  \<open>c.DefaultQuery(key, def)\<close>: the query value when the key is present (even if empty),
  the default otherwise.
\<close>

definition DefaultQuery :: "string option \<Rightarrow> string \<Rightarrow> string" where
  "DefaultQuery q d = (case q of None \<Rightarrow> d | Some v \<Rightarrow> v)"

text \<open>
  The first lines of \<open>GetUsers\<close>: the page and the limit that the handler passes on, from
  the two query values.
\<close>

definition GetUsers_params :: "string option \<Rightarrow> string option \<Rightarrow> go_int \<times> go_int" where
  "GetUsers_params pageQuery limitQuery =
     (let page = Atoi (DefaultQuery pageQuery ''1'');
          limit = Atoi (DefaultQuery limitQuery ''10'');
          page = (if page <s 1 then 1 else page);
          limit = (if limit <s 1 \<or> 100 <s limit then 10 else limit)
      in (page, limit))"

text \<open>
  A panic under a handler is caught by the recovery middleware, which answers 500. \<open>GetUsers\<close>
  divides in \<open>BuildMeta\<close>.
\<close>

definition GetUsers :: "'s UserRepository \<Rightarrow> 's \<Rightarrow> string option \<Rightarrow> string option \<Rightarrow> http_response" where
  "GetUsers repo s pageQuery limitQuery =
     (case GetUsers_params pageQuery limitQuery of
        (page, limit) \<Rightarrow>
          (case GetAll repo s page limit of
             Inl err \<Rightarrow> response_InternalServerError (err_Error err)
           | Inr (users, tot) \<Rightarrow>
               (case BuildMeta page limit tot of
                  Inl p \<Rightarrow> response_Error StatusInternalServerError ''Internal server error'' None
                | Inr meta \<Rightarrow>
                    response_SuccessWithMeta ''Users retrieved successfully''
                      (Some (UserList users)) meta)))"

definition UpdateUser ::
  "'s UserRepository \<Rightarrow> (string \<Rightarrow> error + string) \<Rightarrow> 's \<Rightarrow> string \<Rightarrow> UpdateUserRequest bound
     \<Rightarrow> http_response \<times> 's" where
  "UpdateUser repo HashPassword s idParam body =
     (case ParseUint32 idParam of
        None \<Rightarrow> (response_BadRequest ''Invalid user ID'' None, s)
      | Some uid \<Rightarrow>
          (case body of
             Inl errors \<Rightarrow> (response_ValidationError errors, s)
           | Inr req \<Rightarrow>
               (case Update repo HashPassword s uid req of
                  (Inl err, s') \<Rightarrow> (response_BadRequest (err_Error err) None, s')
                | (Inr user, s') \<Rightarrow>
                    (response_Success ''User updated successfully'' (Some (UserData user)), s'))))"

definition DeleteUser :: "'s UserRepository \<Rightarrow> 's \<Rightarrow> string \<Rightarrow> http_response \<times> 's" where
  "DeleteUser repo s idParam =
     (case ParseUint32 idParam of
        None \<Rightarrow> (response_BadRequest ''Invalid user ID'' None, s)
      | Some uid \<Rightarrow>
          (case Delete repo s uid of
             (Some err, s') \<Rightarrow> (response_NotFound (err_Error err), s')
           | (None, s') \<Rightarrow> (response_Success ''User deleted successfully'' None, s')))"

section \<open>Token service\<close>

text \<open>
  Modelled from the spec: the token manager (\<open>utils.NewJWTManager\<close>, its \<open>GenerateToken\<close>
  and its verification, in \<open>pkg/utils\<close>) is not among the sources; \<open>cmd/api/main.go\<close> only
  constructs it from the secret and the expiry duration. The spec's contract: \<open>issue\<close> signs
  the claim set {user id, email, role, issued-at, expiry} with the shared secret, the expiry
  being the configured duration after issuance; \<open>verify\<close> fails with an AuthError when the
  token is structurally malformed, when the signature is invalid, or when the current time
  is past the embedded expiry, and returns {user id, email, role} otherwise. The signing
  function is a parameter; times are seconds, as integers.
\<close>

record Claims =
  claim_user_id :: nat
  claim_email :: string
  claim_role :: string
  claim_issued_at :: int
  claim_expires_at :: int

datatype 'sig token = Malformed string | Signed Claims 'sig

record JWTManager =
  secretKey :: string
  expireDuration :: int

record Identity =
  userID :: nat
  email :: string
  role :: string

datatype auth_error = AuthError

definition issue ::
  "(string \<Rightarrow> Claims \<Rightarrow> 'sig) \<Rightarrow> JWTManager \<Rightarrow> int \<Rightarrow> nat \<Rightarrow> string \<Rightarrow> string \<Rightarrow> 'sig token" where
  "issue sign m now uid em rl =
     (let claims = \<lparr>claim_user_id = uid, claim_email = em, claim_role = rl,
                     claim_issued_at = now, claim_expires_at = now + expireDuration m\<rparr>
      in Signed claims (sign (secretKey m) claims))"

definition verify ::
  "(string \<Rightarrow> Claims \<Rightarrow> 'sig) \<Rightarrow> JWTManager \<Rightarrow> int \<Rightarrow> 'sig token \<Rightarrow> auth_error + Identity" where
  "verify sign m now tok =
     (case tok of
        Malformed raw \<Rightarrow> Inl AuthError
      | Signed claims sg \<Rightarrow>
          if sg \<noteq> sign (secretKey m) claims then Inl AuthError
          else if claim_expires_at claims < now then Inl AuthError
          else Inr \<lparr>userID = claim_user_id claims, email = claim_email claims,
                    role = claim_role claims\<rparr>)"

section \<open>An in-memory repository\<close>

text \<open>
  A test double of the repository, used to run the use cases and the handlers on concrete
  stores: the state is the list of rows, soft-deleted rows included. The stand-ins for the
  hasher, the password check and the token generator are as simple.
\<close>

definition live :: "User list \<Rightarrow> User list" where
  "live rows = filter (\<lambda>u. DeletedAt u = None) rows"

definition mem_gorm :: "User list gorm" where
  "mem_gorm =
     \<lparr>gormCount = (\<lambda>rows. Inr (word_of_int (int (length (live rows))))),
      gormOffsetLimitFind =
        (\<lambda>rows off lim. Inr (take (nat (sint lim)) (drop (nat (sint off)) (live rows))))\<rparr>"

definition mem_repo :: "User list UserRepository" where
  "mem_repo =
     \<lparr>repoCreate =
        (\<lambda>rows u.
           case find (\<lambda>x. Email x = Email u) rows of
             Some x \<Rightarrow> (Some (Other ''duplicate key value''), u, rows)
           | None \<Rightarrow>
               (let u' = u\<lparr>ID := Suc (length rows), CreatedAt := 1, UpdatedAt := 1\<rparr>
                in (None, u', rows @ [u']))),
      repoFindByID =
        (\<lambda>rows uid.
           case find (\<lambda>x. ID x = uid) (live rows) of
             None \<Rightarrow> Inl ErrRecordNotFound
           | Some x \<Rightarrow> Inr x),
      repoFindByEmail =
        (\<lambda>rows em.
           case find (\<lambda>x. Email x = em) (live rows) of
             None \<Rightarrow> Inl ErrRecordNotFound
           | Some x \<Rightarrow> Inr x),
      repoFindAll = userRepository_FindAll mem_gorm,
      repoUpdate =
        (\<lambda>rows u.
           (let u' = u\<lparr>UpdatedAt := 2\<rparr>
            in (None, u', map (\<lambda>x. if ID x = ID u then u' else x) rows))),
      repoDelete =
        (\<lambda>rows uid.
           (None, map (\<lambda>x. if ID x = uid then x\<lparr>DeletedAt := Some 3\<rparr> else x) rows))\<rparr>"

definition example_HashPassword :: "string \<Rightarrow> error + string" where
  "example_HashPassword password = Inr (''hash-of-'' @ password)"

definition example_CheckPassword :: "string \<Rightarrow> string \<Rightarrow> bool" where
  "example_CheckPassword password hash = (hash = ''hash-of-'' @ password)"

definition example_GenerateToken :: "nat \<Rightarrow> string \<Rightarrow> string \<Rightarrow> error + string" where
  "example_GenerateToken uid em rl = Inr (''token-for-'' @ em)"

definition alice :: User where
  "alice = \<lparr>ID = 1, Name = ''Alice'', Email = ''alice@example.com'',
            Password = ''hash-of-secret1'', Role = ''admin'', IsActive = True,
            CreatedAt = 1, UpdatedAt = 1, DeletedAt = None\<rparr>"

definition bob :: User where
  "bob = \<lparr>ID = 2, Name = ''Bob'', Email = ''bob@example.com'',
          Password = ''hash-of-secret2'', Role = ''user'', IsActive = False,
          CreatedAt = 1, UpdatedAt = 1, DeletedAt = None\<rparr>"

definition example_rows :: "User list" where
  "example_rows = [alice, bob]"

definition example_sign :: "string \<Rightarrow> Claims \<Rightarrow> string \<times> Claims" where
  "example_sign secret claims = (secret, claims)"

definition example_manager :: JWTManager where
  "example_manager = \<lparr>secretKey = ''your-secret-key'', expireDuration = 86400\<rparr>"

section \<open>Arithmetic of Go's \<open>int\<close>\<close>

lemma sint_small: "- (2^63) \<le> k \<Longrightarrow> k < 2^63 \<Longrightarrow> sint (word_of_int k :: go_int) = k"
  by (simp add: sint_sbintrunc' signed_take_bit_int_eq_self)

lemma sint_bounds: "- (2^63) \<le> sint (w::go_int) \<and> sint w < 2^63"
  using sint_ge[of w] sint_lt[of w] by simp

text \<open>On a non-negative dividend and a positive divisor, Go's \<open>/\<close> and \<open>%\<close> are \<open>div\<close> and \<open>mod\<close>.\<close>

lemma quo_nonneg:
  assumes "0 \<le> sint a" "1 \<le> sint b"
  shows "sint (int_quo a b) = sint a div sint b"
proof -
  have "sint a sdiv sint b = sint a div sint b"
    using assms by (simp add: signed_divide_int_def sgn_if)
  moreover have "0 \<le> sint a div sint b"
    using assms by (simp add: pos_imp_zdiv_nonneg_iff)
  moreover have "sint a div sint b \<le> sint a"
    using assms by (metis div_by_1 zdiv_mono2 zero_less_one)
  ultimately show ?thesis
    unfolding int_quo_def using sint_bounds[of a] by (simp add: sint_small)
qed

lemma rem_nonneg:
  assumes "0 \<le> sint a" "1 \<le> sint b"
  shows "sint (int_rem a b) = sint a mod sint b"
proof -
  have "sint a smod sint b = sint a mod sint b"
    using assms by (simp add: signed_modulo_int_def sgn_if)
  moreover have "0 \<le> sint a mod sint b" using assms by simp
  moreover have "sint a mod sint b < sint b" using assms by simp
  ultimately show ?thesis
    unfolding int_rem_def using sint_bounds[of b] by (simp add: sint_small)
qed

lemma ceil_int:
  assumes "0 < (p::int)"
  shows "\<lceil>real_of_int t / real_of_int p\<rceil> = t div p + (if 0 < t mod p then 1 else 0)"
proof -
  have "\<lceil>real_of_int t / real_of_int p\<rceil> = - ((- t) div p)"
    by (rule ceiling_divide_eq_div)
  moreover have "0 < t mod p \<longleftrightarrow> t mod p \<noteq> 0"
    using pos_mod_sign[OF assms, of t] by linarith
  ultimately show ?thesis
    using assms by (simp add: zdiv_zminus1_eq_if)
qed

lemma sint_succ:
  assumes "sint (x::go_int) + 1 < 2^63"
  shows "sint (x + 1) = sint x + 1"
proof -
  have "x + 1 = word_of_int (sint x + 1)" by simp
  moreover have "- (2^63) \<le> sint x + 1" using sint_bounds[of x] by simp
  ultimately show ?thesis using assms sint_small[of "sint x + 1"] by simp
qed

text \<open>The increment of \<open>totalPages\<close> cannot overflow: it happens only for a divisor of 2 or more.\<close>

lemma quo_room:
  assumes "0 \<le> (t::int)" "t < 2^63" "0 < p" "0 < t mod p"
  shows "t div p + 1 < 2^63"
proof -
  have "p \<noteq> 1" using assms(4) by auto
  then have "2 \<le> p" using assms(3) by simp
  then have "t div p \<le> t div 2" using assms(1) by (intro zdiv_mono2) auto
  also have "\<dots> < 2^62" using assms(2) by simp
  finally show ?thesis by simp
qed

section \<open>Pagination metadata\<close>

text \<open>
  C9: for every total \<open>\<ge> 0\<close> and per-page \<open>\<ge> 1\<close>, \<open>BuildMeta\<close> returns (it does not panic)
  the metadata whose page, per-page and total are the arguments unchanged and whose
  total-pages is the ceiling of total divided by per-page.
\<close>

theorem BuildMeta_total_pages:
  assumes "0 \<le> sint tot" and "1 \<le> sint perPage"
  shows "\<exists>tp. BuildMeta page perPage tot =
                 Inr \<lparr>CurrentPage = page, PerPage = perPage, Total = tot, TotalPages = tp\<rparr>
              \<and> sint tp = \<lceil>real_of_int (sint tot) / real_of_int (sint perPage)\<rceil>"
proof -
  have nz: "perPage \<noteq> 0" using assms(2) by auto
  have q: "sint (int_quo tot perPage) = sint tot div sint perPage"
    by (rule quo_nonneg[OF assms])
  have r: "sint (int_rem tot perPage) = sint tot mod sint perPage"
    by (rule rem_nonneg[OF assms])
  have c: "\<lceil>real_of_int (sint tot) / real_of_int (sint perPage)\<rceil>
            = sint tot div sint perPage + (if 0 < sint tot mod sint perPage then 1 else 0)"
    using assms by (intro ceil_int) auto
  show ?thesis
  proof (cases "0 <s int_rem tot perPage")
    case True
    then have pos: "0 < sint tot mod sint perPage" by (simp add: word_sless_alt r)
    have "sint tot div sint perPage + 1 < 2^63"
      using assms pos sint_bounds[of tot] by (intro quo_room) auto
    then have "sint (int_quo tot perPage + 1) = sint tot div sint perPage + 1"
      using sint_succ[of "int_quo tot perPage"] q by simp
    with True pos c nz show ?thesis by (simp add: BuildMeta_def)
  next
    case False
    then have "\<not> 0 < sint tot mod sint perPage" by (simp add: word_sless_alt r)
    with False c q nz show ?thesis by (simp add: BuildMeta_def)
  qed
qed

text \<open>The spec's example: 25 rows at 10 per page are 3 pages.\<close>

theorem BuildMeta_total_pages_witness:
  "0 \<le> sint (25 :: go_int) \<and> 1 \<le> sint (10 :: go_int)
   \<and> (\<exists>tp. BuildMeta 1 10 25 =
              Inr \<lparr>CurrentPage = 1, PerPage = 10, Total = 25, TotalPages = tp\<rparr>
            \<and> sint tp = 3)"
  using BuildMeta_total_pages[of 25 10 1] by simp

lemma BuildMeta_25_rows:
  "BuildMeta 1 10 25 = Inr \<lparr>CurrentPage = 1, PerPage = 10, Total = 25, TotalPages = 3\<rparr>"
  by (simp add: BuildMeta_def int_quo_def int_rem_def signed_divide_int_def
      signed_modulo_int_def word_sless_alt)

section \<open>Pagination of the list handler\<close>

lemma Atoi_default_page: "Atoi ''1'' = 1"
  by (simp add: Atoi_def is_digit_def)

lemma Atoi_default_limit: "Atoi ''10'' = 10"
  by (simp add: Atoi_def is_digit_def)

lemma GetUsers_params_range:
  assumes "GetUsers_params pageQuery limitQuery = (page, limit)"
  shows "1 \<le> sint page \<and> 1 \<le> sint limit \<and> sint limit \<le> 100"
  using assms
  by (auto simp add: GetUsers_params_def Let_def word_sless_alt split: if_splits)

text \<open>The product in \<open>FindAll\<close> is the mathematical one as long as it fits an \<open>int\<close>.\<close>

lemma sint_offset:
  assumes "1 \<le> sint (page::go_int)" "1 \<le> sint (limit::go_int)"
    and "(sint page - 1) * sint limit < 2^63"
  shows "sint (FindAll_offset page limit) = (sint page - 1) * sint limit"
proof -
  have "FindAll_offset page limit = word_of_int ((sint page - 1) * sint limit)"
    by (simp add: FindAll_offset_def)
  moreover have "0 \<le> (sint page - 1) * sint limit"
    using assms(1,2) by simp
  ultimately show ?thesis
    using assms(3) sint_small[of "(sint page - 1) * sint limit"] by simp
qed

text \<open>
  With the repository of \<open>user_repository_impl.go\<close> behind the use case, the handler's page
  and limit reach the ORM's two queries unchanged, the second one at \<open>FindAll_offset\<close>.
\<close>

lemma GetUsers_queries:
  assumes "GetUsers_params pageQuery limitQuery = (page, limit)"
  shows "GetUsers (repo\<lparr>repoFindAll := userRepository_FindAll db\<rparr>) d pageQuery limitQuery =
           (case gormCount db d of
              Inl err \<Rightarrow> response_InternalServerError (err_Error err)
            | Inr tot \<Rightarrow>
                (case gormOffsetLimitFind db d (FindAll_offset page limit) limit of
                   Inl err \<Rightarrow> response_InternalServerError (err_Error err)
                 | Inr users \<Rightarrow>
                     (case BuildMeta page limit tot of
                        Inl p \<Rightarrow>
                          response_Error StatusInternalServerError ''Internal server error'' None
                      | Inr meta \<Rightarrow>
                          response_SuccessWithMeta ''Users retrieved successfully''
                            (Some (UserList (map UserResponse_of users))) meta)))"
  using assms
  by (simp add: GetUsers_def GetAll_def userRepository_FindAll_def split: sum.splits)

lemma GetUsers_params_examples:
  "GetUsers_params None None = (1, 10)"
  "GetUsers_params (Some ''abc'') (Some ''x'') = (1, 10)"
  "GetUsers_params (Some ''0'') (Some ''0'') = (1, 10)"
  "GetUsers_params (Some ''-3'') (Some ''-20'') = (1, 10)"
  "GetUsers_params (Some []) (Some ''150'') = (1, 10)"
  "GetUsers_params (Some ''3'') (Some ''25'') = (3, 25)"
  "GetUsers_params (Some ''922337203685477581'') (Some ''100'') = (922337203685477581, 100)"
  by (simp_all add: GetUsers_params_def DefaultQuery_def Atoi_def is_digit_def word_sless_alt)

text \<open>
  C8, as stated, fails on a page so large that the product leaves the range of \<open>int\<close>:
  for \<open>?page=922337203685477581&limit=100\<close> both values pass the handler unchanged, the
  repository's \<open>(page - 1) * limit\<close> wraps around to -80, and the mathematical product is
  92233720368547758000.
\<close>

theorem GetUsers_offset_counterexample:
  "GetUsers_params (Some ''922337203685477581'') (Some ''100'') = (922337203685477581, 100)
   \<and> sint (FindAll_offset 922337203685477581 100) = - 80
   \<and> (sint (922337203685477581 :: go_int) - 1) * sint (100 :: go_int) = 92233720368547758000"
  by (simp add: GetUsers_params_examples FindAll_offset_def)

text \<open>
  C8 (amended): for every page and limit query value (missing, non-numeric, zero, negative
  or over the limit included), the page and the limit that the list handler passes on satisfy
  page \<open>\<ge> 1\<close> and \<open>1 \<le>\<close> limit \<open>\<le> 100\<close>, a missing page is 1 and a missing limit is 10, the
  repository issues its row query with exactly these values, and the offset of that query
  is \<open>(page - 1) * limit\<close> whenever this product fits Go's 64-bit \<open>int\<close>.
\<close>

theorem GetUsers_pagination:
  assumes "GetUsers_params pageQuery limitQuery = (page, limit)"
  shows "1 \<le> sint page \<and> 1 \<le> sint limit \<and> sint limit \<le> 100
       \<and> (pageQuery = None \<longrightarrow> page = 1) \<and> (limitQuery = None \<longrightarrow> limit = 10)
       \<and> GetUsers (repo\<lparr>repoFindAll := userRepository_FindAll db\<rparr>) d pageQuery limitQuery =
           (case gormCount db d of
              Inl err \<Rightarrow> response_InternalServerError (err_Error err)
            | Inr tot \<Rightarrow>
                (case gormOffsetLimitFind db d (FindAll_offset page limit) limit of
                   Inl err \<Rightarrow> response_InternalServerError (err_Error err)
                 | Inr users \<Rightarrow>
                     (case BuildMeta page limit tot of
                        Inl p \<Rightarrow>
                          response_Error StatusInternalServerError ''Internal server error'' None
                      | Inr meta \<Rightarrow>
                          response_SuccessWithMeta ''Users retrieved successfully''
                            (Some (UserList (map UserResponse_of users))) meta)))
       \<and> ((sint page - 1) * sint limit < 2^63 \<longrightarrow>
            sint (FindAll_offset page limit) = (sint page - 1) * sint limit)"
proof -
  have r: "1 \<le> sint page \<and> 1 \<le> sint limit \<and> sint limit \<le> 100"
    by (rule GetUsers_params_range[OF assms])
  have p: "pageQuery = None \<longrightarrow> page = 1"
    using assms by (auto simp add: GetUsers_params_def DefaultQuery_def Atoi_default_page Let_def)
  have l: "limitQuery = None \<longrightarrow> limit = 10"
    using assms by (auto simp add: GetUsers_params_def DefaultQuery_def Atoi_default_limit Let_def)
  have off: "(sint page - 1) * sint limit < 2^63 \<longrightarrow>
            sint (FindAll_offset page limit) = (sint page - 1) * sint limit"
    using r sint_offset by blast
  note q = GetUsers_queries[OF assms, where repo = repo and db = db and d = d]
  from r p l off q show ?thesis by blast
qed

theorem GetUsers_pagination_witness:
  "GetUsers_params (Some ''3'') (Some ''25'') = (3, 25)
   \<and> 1 \<le> sint (3 :: go_int) \<and> 1 \<le> sint (25 :: go_int) \<and> sint (25 :: go_int) \<le> 100
   \<and> (sint (3 :: go_int) - 1) * sint (25 :: go_int) < 2^63
   \<and> sint (FindAll_offset 3 25) = 50"
  using GetUsers_pagination[OF GetUsers_params_examples(6),
      where repo = mem_repo and db = mem_gorm and d = example_rows]
  by (simp add: GetUsers_params_examples)

text \<open>
  C10: a limit query value outside [1, 100] (150 or 0, say) is reset to the default 10, not
  clamped to the nearest bound: 10 is the limit passed on, and the per-page of the metadata
  of every successful answer.
\<close>

theorem GetUsers_limit_reset:
  assumes "sint (Atoi v) < 1 \<or> 100 < sint (Atoi v)"
  shows "snd (GetUsers_params pageQuery (Some v)) = 10
       \<and> (\<forall>users tot.
            repoFindAll repo s (fst (GetUsers_params pageQuery (Some v))) 10 = Inr (users, tot)
            \<longrightarrow> map_option PerPage (Meta (snd (GetUsers repo s pageQuery (Some v)))) = Some 10)"
proof -
  have l: "snd (GetUsers_params pageQuery (Some v)) = 10"
    using assms by (auto simp add: GetUsers_params_def DefaultQuery_def Let_def word_sless_alt)
  obtain page where pl: "GetUsers_params pageQuery (Some v) = (page, 10)"
    using l by (cases "GetUsers_params pageQuery (Some v)") auto
  have "map_option PerPage (Meta (snd (GetUsers repo s pageQuery (Some v)))) = Some 10"
    if "repoFindAll repo s page 10 = Inr (users, tot)" for users tot
    using that pl
    by (simp add: GetUsers_def GetAll_def BuildMeta_def response_SuccessWithMeta_def Let_def)
  with l pl show ?thesis by simp
qed

lemma mem_FindAll_first_page:
  "repoFindAll mem_repo example_rows 1 10 = Inr ([alice, bob], 2)"
  by (simp add: mem_repo_def mem_gorm_def userRepository_FindAll_def FindAll_offset_def
      example_rows_def live_def alice_def bob_def)

theorem GetUsers_limit_reset_witness:
  "100 < sint (Atoi ''150'') \<and> sint (Atoi ''0'') < 1
   \<and> snd (GetUsers_params None (Some ''150'')) = 10
   \<and> snd (GetUsers_params None (Some ''0'')) = 10
   \<and> map_option PerPage (Meta (snd (GetUsers mem_repo example_rows None (Some ''150''))))
       = Some 10"
proof -
  have over: "sint (Atoi ''150'') < 1 \<or> 100 < sint (Atoi ''150'')"
    by (simp add: Atoi_def is_digit_def)
  have zero: "sint (Atoi ''0'') < 1 \<or> 100 < sint (Atoi ''0'')"
    by (simp add: Atoi_def is_digit_def)
  have a: "100 < sint (Atoi ''150'') \<and> sint (Atoi ''0'') < 1"
    by (simp add: Atoi_def is_digit_def)
  have f: "repoFindAll mem_repo example_rows (fst (GetUsers_params None (Some ''150''))) 10
            = Inr ([alice, bob], 2)"
    by (simp add: GetUsers_params_def DefaultQuery_def Atoi_def is_digit_def word_sless_alt
        mem_FindAll_first_page)
  from GetUsers_limit_reset[OF over, of None mem_repo example_rows]
    GetUsers_limit_reset[OF zero, of None mem_repo example_rows] a f
  show ?thesis by blast
qed

text \<open>
  The unused \<open>PaginationRequest.Normalize\<close> of the transfer objects does clamp an over-limit
  size to 100; the handler does not call it.
\<close>

lemma Normalize_clamps:
  "Limit (Normalize \<lparr>Page = 1, Limit = 150\<rparr>) = 100"
  "Limit (Normalize \<lparr>Page = 1, Limit = 0\<rparr>) = 10"
  by (simp_all add: Normalize_def word_sless_alt)

section \<open>The example store\<close>

lemma mem_FindByEmail_examples:
  "repoFindByEmail mem_repo example_rows ''alice@example.com'' = Inr alice"
  "repoFindByEmail mem_repo example_rows ''bob@example.com'' = Inr bob"
  "repoFindByEmail mem_repo example_rows ''carol@example.com'' = Inl ErrRecordNotFound"
  "repoFindByEmail mem_repo example_rows ''alice@example.org'' = Inl ErrRecordNotFound"
  by (simp_all add: mem_repo_def example_rows_def live_def alice_def bob_def)

lemma mem_FindByID_examples:
  "repoFindByID mem_repo example_rows 1 = Inr alice"
  "repoFindByID mem_repo example_rows 2 = Inr bob"
  "repoFindByID mem_repo example_rows 7 = Inl ErrRecordNotFound"
  by (simp_all add: mem_repo_def example_rows_def live_def alice_def bob_def)

section \<open>Login\<close>

text \<open>
  C1, as stated, fails on the status: Bob's account is stored, his password verifies and
  his account is inactive, and the login handler answers 401, not 403.
\<close>

theorem Login_inactive_counterexample:
  "repoFindByEmail mem_repo example_rows ''bob@example.com'' = Inr bob
   \<and> example_CheckPassword ''secret2'' (Password bob) \<and> \<not> IsActive bob
   \<and> fst (UserHandler_Login mem_repo example_CheckPassword example_GenerateToken example_rows
        (Inr \<lparr>login_email = ''bob@example.com'', login_password = ''secret2''\<rparr>)) = 401
   \<and> StatusForbidden = 403"
  by (simp add: mem_FindByEmail_examples UserHandler_Login_def Login_def
      example_CheckPassword_def bob_def response_Unauthorized_def response_Error_def
      StatusUnauthorized_def StatusForbidden_def)

text \<open>
  C1 (amended): for every login request whose email matches a stored user, whose password
  verifies against the stored hash, and whose account is inactive, \<open>Login\<close> fails with the
  plain error "account is not active", and the handler, which answers every error of
  \<open>Login\<close> with \<open>response.Unauthorized\<close>, gives the status 401 with that message.
\<close>

theorem Login_inactive:
  assumes "repoFindByEmail repo s (login_email req) = Inr user"
    and "CheckPassword (login_password req) (Password user)"
    and "\<not> IsActive user"
  shows "Login repo CheckPassword GenerateToken s req = Inl (New ''account is not active'')
       \<and> UserHandler_Login repo CheckPassword GenerateToken s (Inr req) =
           (401, \<lparr>Success = False, Message = ''account is not active'', Data = None,
                  Error = None, Meta = None\<rparr>)"
  using assms
  by (simp add: Login_def UserHandler_Login_def response_Unauthorized_def response_Error_def
      StatusUnauthorized_def)

theorem Login_inactive_witness:
  "repoFindByEmail mem_repo example_rows ''bob@example.com'' = Inr bob
   \<and> example_CheckPassword ''secret2'' (Password bob) \<and> \<not> IsActive bob
   \<and> Login mem_repo example_CheckPassword example_GenerateToken example_rows
        \<lparr>login_email = ''bob@example.com'', login_password = ''secret2''\<rparr>
       = Inl (New ''account is not active'')
   \<and> UserHandler_Login mem_repo example_CheckPassword example_GenerateToken example_rows
        (Inr \<lparr>login_email = ''bob@example.com'', login_password = ''secret2''\<rparr>)
       = (401, \<lparr>Success = False, Message = ''account is not active'', Data = None,
                 Error = None, Meta = None\<rparr>)"
proof -
  let ?req = "\<lparr>login_email = ''bob@example.com'', login_password = ''secret2''\<rparr>"
  have f: "repoFindByEmail mem_repo example_rows (login_email ?req) = Inr bob"
    by (simp add: mem_FindByEmail_examples)
  have c: "example_CheckPassword (login_password ?req) (Password bob)"
    by (simp add: example_CheckPassword_def bob_def)
  have a: "\<not> IsActive bob"
    by (simp add: bob_def)
  show ?thesis
    using Login_inactive[where repo = mem_repo and s = example_rows and user = bob
        and req = ?req and CheckPassword = example_CheckPassword
        and GenerateToken = example_GenerateToken]
      f c a
    by simp
qed

text \<open>
  C2: a login with an email that matches no stored user and a login with a stored email but
  a password that does not verify fail alike: the same error "invalid email or password"
  from \<open>Login\<close>, and the same answer of the handler, status 401 included. The two runs may
  be on different stores.
\<close>

theorem Login_failures_indistinguishable:
  assumes "repoFindByEmail repoA sA (login_email reqA) = Inl ErrRecordNotFound"
    and "repoFindByEmail repoB sB (login_email reqB) = Inr user"
    and "\<not> CheckPassword (login_password reqB) (Password user)"
  shows "Login repoA CheckPassword GenerateToken sA reqA = Inl (New ''invalid email or password'')
       \<and> Login repoB CheckPassword GenerateToken sB reqB = Inl (New ''invalid email or password'')
       \<and> UserHandler_Login repoA CheckPassword GenerateToken sA (Inr reqA) =
           (401, \<lparr>Success = False, Message = ''invalid email or password'', Data = None,
                  Error = None, Meta = None\<rparr>)
       \<and> UserHandler_Login repoB CheckPassword GenerateToken sB (Inr reqB) =
           UserHandler_Login repoA CheckPassword GenerateToken sA (Inr reqA)"
  using assms
  by (simp add: Login_def UserHandler_Login_def response_Unauthorized_def response_Error_def
      StatusUnauthorized_def)

theorem Login_failures_indistinguishable_witness:
  "repoFindByEmail mem_repo example_rows ''carol@example.com'' = Inl ErrRecordNotFound
   \<and> repoFindByEmail mem_repo example_rows ''alice@example.com'' = Inr alice
   \<and> \<not> example_CheckPassword ''wrong'' (Password alice)
   \<and> UserHandler_Login mem_repo example_CheckPassword example_GenerateToken example_rows
        (Inr \<lparr>login_email = ''carol@example.com'', login_password = ''secret1''\<rparr>)
       = (401, \<lparr>Success = False, Message = ''invalid email or password'', Data = None,
                 Error = None, Meta = None\<rparr>)
   \<and> UserHandler_Login mem_repo example_CheckPassword example_GenerateToken example_rows
        (Inr \<lparr>login_email = ''alice@example.com'', login_password = ''wrong''\<rparr>)
       = (401, \<lparr>Success = False, Message = ''invalid email or password'', Data = None,
                 Error = None, Meta = None\<rparr>)"
proof -
  let ?req1 = "\<lparr>login_email = ''carol@example.com'', login_password = ''secret1''\<rparr>"
  let ?req2 = "\<lparr>login_email = ''alice@example.com'', login_password = ''wrong''\<rparr>"
  have f1: "repoFindByEmail mem_repo example_rows (login_email ?req1) = Inl ErrRecordNotFound"
    by (simp add: mem_FindByEmail_examples)
  have f2: "repoFindByEmail mem_repo example_rows (login_email ?req2) = Inr alice"
    by (simp add: mem_FindByEmail_examples)
  have c: "\<not> example_CheckPassword (login_password ?req2) (Password alice)"
    by (simp add: example_CheckPassword_def alice_def)
  show ?thesis
    using Login_failures_indistinguishable[where repoA = mem_repo and sA = example_rows
        and repoB = mem_repo and sB = example_rows and user = alice
        and reqA = ?req1 and reqB = ?req2 and CheckPassword = example_CheckPassword
        and GenerateToken = example_GenerateToken]
      f1 f2 c
    by simp
qed

text \<open>A login that succeeds, for comparison: Alice is active and her password verifies.\<close>

lemma Login_example_success:
  "UserHandler_Login mem_repo example_CheckPassword example_GenerateToken example_rows
     (Inr \<lparr>login_email = ''alice@example.com'', login_password = ''secret1''\<rparr>)
   = (200, \<lparr>Success = True, Message = ''Login successful'',
             Data = Some (LoginData \<lparr>resp_token = ''token-for-alice@example.com'',
                                      resp_user = UserResponse_of alice\<rparr>),
             Error = None, Meta = None\<rparr>)"
  by (simp add: mem_FindByEmail_examples UserHandler_Login_def Login_def
      example_CheckPassword_def example_GenerateToken_def alice_def response_Success_def
      StatusOK_def)

section \<open>Register\<close>

text \<open>
  C3: a registration whose email is that of a stored user fails with "email already
  registered" and leaves the store as it was; the outcome is the same whatever the store's
  create operation is, since it is not called.
\<close>

theorem Register_existing_email:
  assumes "repoFindByEmail repo s (reg_email req) = Inr existingUser"
  shows "Register repo HashPassword s req = (Inl (New ''email already registered''), s)
       \<and> (\<forall>create. Register (repo\<lparr>repoCreate := create\<rparr>) HashPassword s req =
             (Inl (New ''email already registered''), s))"
  using assms by (simp add: Register_def)

theorem Register_existing_email_witness:
  "repoFindByEmail mem_repo example_rows ''alice@example.com'' = Inr alice
   \<and> Register mem_repo example_HashPassword example_rows
        \<lparr>reg_name = ''Alice Again'', reg_email = ''alice@example.com'',
         reg_password = ''secret9''\<rparr>
       = (Inl (New ''email already registered''), example_rows)"
proof -
  let ?req = "\<lparr>reg_name = ''Alice Again'', reg_email = ''alice@example.com'',
                reg_password = ''secret9''\<rparr>"
  have f: "repoFindByEmail mem_repo example_rows (reg_email ?req) = Inr alice"
    by (simp add: mem_FindByEmail_examples)
  show ?thesis
    using Register_existing_email[where repo = mem_repo and s = example_rows and req = ?req
        and existingUser = alice and HashPassword = example_HashPassword] f
    by simp
qed

text \<open>
  C4: a registration succeeds exactly when the email is not found, the hashing succeeds and
  the store's create succeeds on the entity with the request's name and email, the digest,
  the role "user" and active = true; the response is then made of the seven public fields
  of the entity the store returned (id, name, email, role, is_active, created_at,
  updated_at) and does not depend on that entity's password hash.
\<close>

theorem Register_success:
  "(Register repo HashPassword s req = (Inr resp, s')) =
     (\<exists>hashedPassword stored.
        repoFindByEmail repo s (reg_email req) = Inl ErrRecordNotFound
      \<and> HashPassword (reg_password req) = Inr hashedPassword
      \<and> repoCreate repo s
           \<lparr>ID = 0, Name = reg_name req, Email = reg_email req, Password = hashedPassword,
            Role = ''user'', IsActive = True, CreatedAt = 0, UpdatedAt = 0, DeletedAt = None\<rparr>
          = (None, stored, s')
      \<and> resp = \<lparr>resp_id = ID stored, resp_name = Name stored, resp_email = Email stored,
                 resp_role = Role stored, resp_is_active = IsActive stored,
                 resp_created_at = CreatedAt stored, resp_updated_at = UpdatedAt stored\<rparr>
      \<and> (\<forall>h. UserResponse_of (stored\<lparr>Password := h\<rparr>) = resp))"
  by (auto simp add: Register_def UserResponse_of_def split: sum.splits option.splits prod.splits)

theorem Register_success_witness:
  "Register mem_repo example_HashPassword example_rows
     \<lparr>reg_name = ''Carol'', reg_email = ''carol@example.com'', reg_password = ''secret3''\<rparr>
   = (Inr \<lparr>resp_id = 3, resp_name = ''Carol'', resp_email = ''carol@example.com'',
           resp_role = ''user'', resp_is_active = True, resp_created_at = 1,
           resp_updated_at = 1\<rparr>,
      example_rows @
        [\<lparr>ID = 3, Name = ''Carol'', Email = ''carol@example.com'',
          Password = ''hash-of-secret3'', Role = ''user'', IsActive = True, CreatedAt = 1,
          UpdatedAt = 1, DeletedAt = None\<rparr>])
   \<and> (\<exists>hashedPassword stored.
        example_HashPassword ''secret3'' = Inr hashedPassword
      \<and> repoCreate mem_repo example_rows
           \<lparr>ID = 0, Name = ''Carol'', Email = ''carol@example.com'', Password = hashedPassword,
            Role = ''user'', IsActive = True, CreatedAt = 0, UpdatedAt = 0, DeletedAt = None\<rparr>
          = (None, stored,
             example_rows @
               [\<lparr>ID = 3, Name = ''Carol'', Email = ''carol@example.com'',
                 Password = ''hash-of-secret3'', Role = ''user'', IsActive = True,
                 CreatedAt = 1, UpdatedAt = 1, DeletedAt = None\<rparr>]))"
proof -
  let ?req = "\<lparr>reg_name = ''Carol'', reg_email = ''carol@example.com'',
                reg_password = ''secret3''\<rparr>"
  let ?resp = "\<lparr>resp_id = 3, resp_name = ''Carol'', resp_email = ''carol@example.com'',
                 resp_role = ''user'', resp_is_active = True, resp_created_at = 1,
                 resp_updated_at = 1\<rparr>"
  let ?rows = "example_rows @
        [\<lparr>ID = 3, Name = ''Carol'', Email = ''carol@example.com'',
          Password = ''hash-of-secret3'', Role = ''user'', IsActive = True, CreatedAt = 1,
          UpdatedAt = 1, DeletedAt = None\<rparr>]"
  have ev: "Register mem_repo example_HashPassword example_rows ?req = (Inr ?resp, ?rows)"
    by (simp add: Register_def mem_repo_def example_HashPassword_def example_rows_def live_def
        alice_def bob_def UserResponse_of_def Let_def eval_nat_numeral)
  from ev Register_success[where repo = mem_repo and HashPassword = example_HashPassword
      and s = example_rows and req = ?req and resp = ?resp and s' = ?rows]
  obtain hashedPassword stored where
    "example_HashPassword (reg_password ?req) = Inr hashedPassword"
    "repoCreate mem_repo example_rows
           \<lparr>ID = 0, Name = reg_name ?req, Email = reg_email ?req, Password = hashedPassword,
            Role = ''user'', IsActive = True, CreatedAt = 0, UpdatedAt = 0, DeletedAt = None\<rparr>
          = (None, stored, ?rows)"
    by blast
  then have "\<exists>hashedPassword stored.
        example_HashPassword ''secret3'' = Inr hashedPassword
      \<and> repoCreate mem_repo example_rows
           \<lparr>ID = 0, Name = ''Carol'', Email = ''carol@example.com'', Password = hashedPassword,
            Role = ''user'', IsActive = True, CreatedAt = 0, UpdatedAt = 0, DeletedAt = None\<rparr>
          = (None, stored, ?rows)"
    by auto
  with ev show ?thesis by blast
qed

section \<open>Update\<close>

lemma ParseUint32_examples:
  "ParseUint32 ''7'' = Some 7"
  "ParseUint32 ''1'' = Some 1"
  "ParseUint32 ''-1'' = None"
  "ParseUint32 [] = None"
  "ParseUint32 ''4294967296'' = None"
  by (simp_all add: ParseUint32_def is_digit_def)

text \<open>
  C5: the claim asks for 404 when an update is addressed to an id with no row. \<open>Update\<close>
  fails with "user not found" as claimed, but \<open>UpdateUser\<close> answers every error of \<open>Update\<close>
  with \<open>response.BadRequest\<close>: the status is 400. The handlers \<open>GetUser\<close> and \<open>DeleteUser\<close>
  answer the same error of their use cases with 404.
\<close>

theorem UpdateUser_not_found:
  assumes "ParseUint32 idParam = Some uid"
    and "repoFindByID repo s uid = Inl ErrRecordNotFound"
  shows "Update repo HashPassword s uid req = (Inl (New ''user not found''), s)
       \<and> UpdateUser repo HashPassword s idParam (Inr req) =
           ((400, \<lparr>Success = False, Message = ''user not found'', Data = None, Error = None,
                   Meta = None\<rparr>), s)
       \<and> GetUser repo s idParam =
           (404, \<lparr>Success = False, Message = ''user not found'', Data = None, Error = None,
                  Meta = None\<rparr>)
       \<and> fst (DeleteUser repo s idParam) =
           (404, \<lparr>Success = False, Message = ''user not found'', Data = None, Error = None,
                  Meta = None\<rparr>)"
  using assms
  by (simp add: Update_def UpdateUser_def GetUser_def GetByID_def DeleteUser_def Delete_def
      response_BadRequest_def response_NotFound_def response_Error_def StatusBadRequest_def
      StatusNotFound_def)

theorem UpdateUser_not_found_witness:
  "ParseUint32 ''7'' = Some 7 \<and> repoFindByID mem_repo example_rows 7 = Inl ErrRecordNotFound
   \<and> UpdateUser mem_repo example_HashPassword example_rows ''7''
        (Inr \<lparr>upd_name = ''Carol'', upd_email = [], upd_password = []\<rparr>)
       = ((400, \<lparr>Success = False, Message = ''user not found'', Data = None, Error = None,
                  Meta = None\<rparr>), example_rows)
   \<and> GetUser mem_repo example_rows ''7'' =
           (404, \<lparr>Success = False, Message = ''user not found'', Data = None, Error = None,
                  Meta = None\<rparr>)"
  using UpdateUser_not_found[where idParam = "''7''" and uid = 7 and repo = mem_repo
      and s = example_rows and HashPassword = example_HashPassword
      and req = "\<lparr>upd_name = ''Carol'', upd_email = [], upd_password = []\<rparr>"]
  by (simp add: ParseUint32_examples mem_FindByID_examples)

text \<open>
  C6: an update of an existing user that supplies only a non-empty email. If the email is
  not found, or is found on the user being updated, the entity handed to the store's update
  is the loaded one with the email replaced and every other field (name and password hash
  among them) as loaded, and the answer is made of what the store returns. If the email is
  found on a user with another id, the update fails with "email already taken", the store
  is as it was, and the outcome is the same whatever the store's update operation is,
  since it is not called.
\<close>

theorem Update_email_only:
  assumes "repoFindByID repo s uid = Inr user"
    and "upd_name req = []" and "upd_email req \<noteq> []" and "upd_password req = []"
  shows "(repoFindByEmail repo s (upd_email req) = Inl ErrRecordNotFound
          \<or> (\<exists>owner. repoFindByEmail repo s (upd_email req) = Inr owner \<and> ID owner = uid)
          \<longrightarrow> Update repo HashPassword s uid req =
               (case repoUpdate repo s
                       \<lparr>ID = ID user, Name = Name user, Email = upd_email req,
                        Password = Password user, Role = Role user, IsActive = IsActive user,
                        CreatedAt = CreatedAt user, UpdatedAt = UpdatedAt user,
                        DeletedAt = DeletedAt user\<rparr> of
                  (Some err, user', s') \<Rightarrow> (Inl err, s')
                | (None, user', s') \<Rightarrow> (Inr (UserResponse_of user'), s')))
       \<and> (\<forall>owner. repoFindByEmail repo s (upd_email req) = Inr owner \<and> ID owner \<noteq> uid
            \<longrightarrow> (\<forall>upd. Update (repo\<lparr>repoUpdate := upd\<rparr>) HashPassword s uid req =
                         (Inl (New ''email already taken''), s)))"
proof -
  have e: "user\<lparr>Email := upd_email req\<rparr> =
        \<lparr>ID = ID user, Name = Name user, Email = upd_email req,
         Password = Password user, Role = Role user, IsActive = IsActive user,
         CreatedAt = CreatedAt user, UpdatedAt = UpdatedAt user,
         DeletedAt = DeletedAt user\<rparr>"
    by (cases user) simp
  show ?thesis
    using assms unfolding e[symmetric]
    by (auto simp add: Update_def Let_def)
qed

theorem Update_email_only_witness:
  "repoFindByID mem_repo example_rows 1 = Inr alice
   \<and> repoFindByEmail mem_repo example_rows ''alice@example.org'' = Inl ErrRecordNotFound
   \<and> Update mem_repo example_HashPassword example_rows 1
        \<lparr>upd_name = [], upd_email = ''alice@example.org'', upd_password = []\<rparr>
       = (Inr \<lparr>resp_id = 1, resp_name = ''Alice'', resp_email = ''alice@example.org'',
               resp_role = ''admin'', resp_is_active = True, resp_created_at = 1,
               resp_updated_at = 2\<rparr>,
          [\<lparr>ID = 1, Name = ''Alice'', Email = ''alice@example.org'',
            Password = ''hash-of-secret1'', Role = ''admin'', IsActive = True,
            CreatedAt = 1, UpdatedAt = 2, DeletedAt = None\<rparr>, bob])
   \<and> repoFindByEmail mem_repo example_rows ''bob@example.com'' = Inr bob \<and> ID bob \<noteq> 1
   \<and> Update mem_repo example_HashPassword example_rows 1
        \<lparr>upd_name = [], upd_email = ''bob@example.com'', upd_password = []\<rparr>
       = (Inl (New ''email already taken''), example_rows)"
proof -
  let ?free = "\<lparr>upd_name = [], upd_email = ''alice@example.org'', upd_password = []\<rparr>"
  let ?taken = "\<lparr>upd_name = [], upd_email = ''bob@example.com'', upd_password = []\<rparr>"
  have i: "repoFindByID mem_repo example_rows 1 = Inr alice"
    by (rule mem_FindByID_examples)
  have f: "repoFindByEmail mem_repo example_rows ''alice@example.org'' = Inl ErrRecordNotFound"
    by (simp add: mem_FindByEmail_examples)
  have t: "repoFindByEmail mem_repo example_rows ''bob@example.com'' = Inr bob \<and> ID bob \<noteq> 1"
    by (simp add: mem_FindByEmail_examples bob_def)
  have u: "repoUpdate mem_repo example_rows
             \<lparr>ID = ID alice, Name = Name alice, Email = ''alice@example.org'',
              Password = Password alice, Role = Role alice, IsActive = IsActive alice,
              CreatedAt = CreatedAt alice, UpdatedAt = UpdatedAt alice,
              DeletedAt = DeletedAt alice\<rparr>
           = (None,
              \<lparr>ID = 1, Name = ''Alice'', Email = ''alice@example.org'',
               Password = ''hash-of-secret1'', Role = ''admin'', IsActive = True,
               CreatedAt = 1, UpdatedAt = 2, DeletedAt = None\<rparr>,
              [\<lparr>ID = 1, Name = ''Alice'', Email = ''alice@example.org'',
                Password = ''hash-of-secret1'', Role = ''admin'', IsActive = True,
                CreatedAt = 1, UpdatedAt = 2, DeletedAt = None\<rparr>, bob])"
    by (simp add: mem_repo_def example_rows_def alice_def bob_def Let_def)
  have a: "Update mem_repo example_HashPassword example_rows 1 ?free
       = (Inr \<lparr>resp_id = 1, resp_name = ''Alice'', resp_email = ''alice@example.org'',
               resp_role = ''admin'', resp_is_active = True, resp_created_at = 1,
               resp_updated_at = 2\<rparr>,
          [\<lparr>ID = 1, Name = ''Alice'', Email = ''alice@example.org'',
            Password = ''hash-of-secret1'', Role = ''admin'', IsActive = True,
            CreatedAt = 1, UpdatedAt = 2, DeletedAt = None\<rparr>, bob])"
    using Update_email_only[where repo = mem_repo and s = example_rows and uid = 1
        and user = alice and req = ?free and HashPassword = example_HashPassword] i f u
    by (simp add: UserResponse_of_def)
  have "\<forall>upd. Update (mem_repo\<lparr>repoUpdate := upd\<rparr>) example_HashPassword example_rows 1 ?taken
       = (Inl (New ''email already taken''), example_rows)"
    using Update_email_only[where repo = mem_repo and s = example_rows and uid = 1
        and user = alice and req = ?taken and HashPassword = example_HashPassword] i t
    by simp
  then have "Update (mem_repo\<lparr>repoUpdate := repoUpdate mem_repo\<rparr>) example_HashPassword
               example_rows 1 ?taken = (Inl (New ''email already taken''), example_rows)"
    by blast
  then have b: "Update mem_repo example_HashPassword example_rows 1 ?taken
       = (Inl (New ''email already taken''), example_rows)"
    by simp
  from i f t a b show ?thesis by blast
qed

section \<open>Token round trip\<close>

text \<open>
  C7, on the token service as the spec describes it: a token verified at the moment of its
  issue (with a non-negative expiry duration), and at any time up to its expiry, yields
  exactly the id, email and role it was issued for; verified at any time past its expiry,
  it fails with the authentication error.
\<close>

theorem verify_issue_roundtrip:
  "(0 \<le> expireDuration m \<longrightarrow>
      verify sign m t0 (issue sign m t0 uid em rl) = Inr \<lparr>userID = uid, email = em, role = rl\<rparr>)
   \<and> (t \<le> t0 + expireDuration m \<longrightarrow>
      verify sign m t (issue sign m t0 uid em rl) = Inr \<lparr>userID = uid, email = em, role = rl\<rparr>)
   \<and> (t0 + expireDuration m < t \<longrightarrow>
      verify sign m t (issue sign m t0 uid em rl) = Inl AuthError)"
  by (simp add: verify_def issue_def Let_def)

theorem verify_issue_roundtrip_witness:
  "0 \<le> expireDuration example_manager
   \<and> verify example_sign example_manager 1000
        (issue example_sign example_manager 1000 1 ''alice@example.com'' ''admin'')
       = Inr \<lparr>userID = 1, email = ''alice@example.com'', role = ''admin''\<rparr>
   \<and> 1000 + expireDuration example_manager < 90000
   \<and> verify example_sign example_manager 90000
        (issue example_sign example_manager 1000 1 ''alice@example.com'' ''admin'')
       = Inl AuthError"
  using verify_issue_roundtrip[where m = example_manager and sign = example_sign
      and ?t0.0 = 1000 and t = 90000 and uid = 1 and em = "''alice@example.com''"
      and rl = "''admin''"]
  by (simp add: example_manager_def)

text \<open>A token whose signature was made with another secret, or a malformed one, is refused.\<close>

lemma verify_rejects_examples:
  "verify example_sign example_manager 1000
     (issue example_sign (example_manager\<lparr>secretKey := ''another-key''\<rparr>) 1000 1
        ''alice@example.com'' ''admin'') = Inl AuthError"
  "verify example_sign example_manager 1000 (Malformed ''not.a.token'') = Inl AuthError"
  by (simp_all add: verify_def issue_def example_sign_def example_manager_def Let_def)

end
